theory Spec2Isabelle
  imports Main
begin

section \<open>The enterprise resource binding (resource_ibm_enterprise.go)\<close>

text \<open>
  A shallow embedding of the four operations of the enterprise resource
  (\<^verbatim>\<open>resourceIbmEnterpriseCreate\<close>, \<^verbatim>\<open>Read\<close>, \<^verbatim>\<open>Update\<close>, \<^verbatim>\<open>Delete\<close>) and of the
  validator of \<^verbatim>\<open>primary_contact_iam_id\<close>.

  Go pointers are options (\<open>None\<close> is \<^verbatim>\<open>nil\<close>), Go structs are records, an
  \<^verbatim>\<open>error\<close> is its message, and \<^verbatim>\<open>diag.Diagnostics\<close> is either \<^verbatim>\<open>nil\<close> or built
  from one error. Dereferencing a nil pointer is the exit \<open>Panic\<close>. The remote
  system is a state of any type \<open>'r\<close>; every remote call is appended to a log,
  so that "which calls were issued" is a property of the returned world.
\<close>

subsection \<open>Errors, diagnostics and exits\<close>

type_synonym error = string

datatype Diagnostics = diag_nil | FromErr error

datatype exit = Return Diagnostics | Panic

subsection \<open>The structs of the remote API (enterprisemanagementv1)\<close>

datatype DateTime = DateTime int

record DetailedResponse =
  StatusCode :: int

record CreateEnterpriseOptions =
  co_SourceAccountID :: "string option"
  co_Name :: "string option"
  co_PrimaryContactIamID :: "string option"
  co_Domain :: "string option"

record CreateEnterpriseResponse =
  cr_EnterpriseID :: "string option"
  cr_EnterpriseAccountID :: "string option"

record GetEnterpriseOptions =
  go_EnterpriseID :: "string option"

record UpdateEnterpriseOptions =
  uo_EnterpriseID :: "string option"
  uo_Name :: "string option"
  uo_Domain :: "string option"
  uo_PrimaryContactIamID :: "string option"

record Enterprise =
  ent_URL :: "string option"
  ent_ID :: "string option"
  ent_EnterpriseAccountID :: "string option"
  ent_CRN :: "string option"
  ent_Name :: "string option"
  ent_Domain :: "string option"
  ent_State :: "string option"
  ent_PrimaryContactIamID :: "string option"
  ent_PrimaryContactEmail :: "string option"
  ent_CreatedAt :: "DateTime option"
  ent_CreatedBy :: "string option"
  ent_UpdatedAt :: "DateTime option"
  ent_UpdatedBy :: "string option"

text \<open>The setters of the option structs store a pointer to their argument.\<close>

definition co_SetSourceAccountID :: "string \<Rightarrow> CreateEnterpriseOptions \<Rightarrow> CreateEnterpriseOptions" where
  "co_SetSourceAccountID v opts = opts\<lparr>co_SourceAccountID := Some v\<rparr>"

definition co_SetName :: "string \<Rightarrow> CreateEnterpriseOptions \<Rightarrow> CreateEnterpriseOptions" where
  "co_SetName v opts = opts\<lparr>co_Name := Some v\<rparr>"

definition co_SetPrimaryContactIamID :: "string \<Rightarrow> CreateEnterpriseOptions \<Rightarrow> CreateEnterpriseOptions" where
  "co_SetPrimaryContactIamID v opts = opts\<lparr>co_PrimaryContactIamID := Some v\<rparr>"

definition co_SetDomain :: "string \<Rightarrow> CreateEnterpriseOptions \<Rightarrow> CreateEnterpriseOptions" where
  "co_SetDomain v opts = opts\<lparr>co_Domain := Some v\<rparr>"

definition go_SetEnterpriseID :: "string \<Rightarrow> GetEnterpriseOptions \<Rightarrow> GetEnterpriseOptions" where
  "go_SetEnterpriseID v opts = opts\<lparr>go_EnterpriseID := Some v\<rparr>"

definition uo_SetEnterpriseID :: "string \<Rightarrow> UpdateEnterpriseOptions \<Rightarrow> UpdateEnterpriseOptions" where
  "uo_SetEnterpriseID v opts = opts\<lparr>uo_EnterpriseID := Some v\<rparr>"

definition uo_SetName :: "string \<Rightarrow> UpdateEnterpriseOptions \<Rightarrow> UpdateEnterpriseOptions" where
  "uo_SetName v opts = opts\<lparr>uo_Name := Some v\<rparr>"

definition uo_SetPrimaryContactIamID :: "string \<Rightarrow> UpdateEnterpriseOptions \<Rightarrow> UpdateEnterpriseOptions" where
  "uo_SetPrimaryContactIamID v opts = opts\<lparr>uo_PrimaryContactIamID := Some v\<rparr>"

definition uo_SetDomain :: "string \<Rightarrow> UpdateEnterpriseOptions \<Rightarrow> UpdateEnterpriseOptions" where
  "uo_SetDomain v opts = opts\<lparr>uo_Domain := Some v\<rparr>"

text \<open>
  The attributes an update request carries: the service sends a field of
  \<^verbatim>\<open>UpdateEnterpriseOptions\<close> in the request body exactly when its pointer is
  not nil. The struct has no field for \<^verbatim>\<open>source_account_id\<close>.
\<close>

definition carried :: "UpdateEnterpriseOptions \<Rightarrow> string set" where
  "carried opts =
     (if uo_Name opts = None then {} else {''name''}) \<union>
     (if uo_PrimaryContactIamID opts = None then {} else {''primary_contact_iam_id''}) \<union>
     (if uo_Domain opts = None then {} else {''domain''})"

subsection \<open>The remote client and the world\<close>

text \<open>
  Each client method returns its Go result tuple (the pointers and the error)
  and the next state of the remote system.
\<close>

record 'r EnterpriseManagementV1 =
  CreateEnterpriseWithContext ::
    "CreateEnterpriseOptions \<Rightarrow> 'r \<Rightarrow>
       (CreateEnterpriseResponse option \<times> DetailedResponse option \<times> error option) \<times> 'r"
  GetEnterpriseWithContext ::
    "GetEnterpriseOptions \<Rightarrow> 'r \<Rightarrow>
       (Enterprise option \<times> DetailedResponse option \<times> error option) \<times> 'r"
  UpdateEnterpriseWithContext ::
    "UpdateEnterpriseOptions \<Rightarrow> 'r \<Rightarrow> (DetailedResponse option \<times> error option) \<times> 'r"

datatype call =
    CreateEnterpriseCall CreateEnterpriseOptions
  | GetEnterpriseCall GetEnterpriseOptions
  | UpdateEnterpriseCall UpdateEnterpriseOptions

record 'r world =
  remote :: 'r
  calls :: "call list"

definition issue :: "call \<Rightarrow> 'r \<Rightarrow> 'r world \<Rightarrow> 'r world" where
  "issue c r' w = \<lparr>remote = r', calls = calls w @ [c]\<rparr>"

text \<open>
  \<^verbatim>\<open>meta.(conns.ClientSession).EnterpriseManagementV1()\<close> returns the client or
  an error; the session is taken as that result.
\<close>

type_synonym 'r ClientSession = "error + 'r EnterpriseManagementV1"

subsection \<open>schema.ResourceData\<close>

text \<open>
  \<^verbatim>\<open>schema.ResourceData\<close> belongs to the plugin SDK (helper/schema), a library
  outside the repository; its methods are modelled by their documented
  contract. The record holds the identifier, the attribute values of the prior
  state (last known), the declared values that the engine hands to the
  operation (\<open>None\<close> when the configuration omits the attribute,
  \<open>Some ''''\<close> when it gives the empty string) and the values assigned by
  \<^verbatim>\<open>Set\<close> during the running operation.
\<close>

record ResourceData =
  rd_Id :: string
  rd_state :: "string \<rightharpoonup> string"
  rd_declared :: "string \<rightharpoonup> string"
  rd_writer :: "string \<rightharpoonup> string"

text \<open>The attribute names of the schema (lines 32 to 101), all of type string.\<close>

definition schema_keys :: "string list" where
  "schema_keys =
     [''source_account_id'', ''name'', ''primary_contact_iam_id'', ''domain'', ''url'',
      ''enterprise_account_id'', ''crn'', ''state'', ''primary_contact_email'',
      ''created_at'', ''created_by'', ''updated_at'', ''updated_by'']"

definition zero_or :: "string option \<Rightarrow> string" where
  "zero_or v = (case v of None \<Rightarrow> '''' | Some s \<Rightarrow> s)"

definition Id_rd :: "ResourceData \<Rightarrow> string" where
  "Id_rd d = rd_Id d"

definition SetId :: "string \<Rightarrow> ResourceData \<Rightarrow> ResourceData" where
  "SetId v d = d\<lparr>rd_Id := v\<rparr>"

text \<open>
  \<^verbatim>\<open>Get\<close> reads the merged view: a value assigned by \<^verbatim>\<open>Set\<close> wins over the
  declared one, and an attribute with no value reads as the zero value, the
  empty string. The operations ask \<^verbatim>\<open>Get\<close>, \<^verbatim>\<open>GetOk\<close> and \<^verbatim>\<open>HasChange\<close> only
  about the four configurable attributes (source_account_id, name,
  primary_contact_iam_id, domain), whose value the engine supplies at the
  declared level. For a computed attribute that only the prior state holds,
  the SDK's merged read falls back to the state value; that level of the read
  is left out here, so the model is meant for the configurable attributes and
  for attributes that \<^verbatim>\<open>Set\<close> has assigned.
\<close>

definition Get :: "ResourceData \<Rightarrow> string \<Rightarrow> string" where
  "Get d k = (case rd_writer d k of Some v \<Rightarrow> v | None \<Rightarrow> zero_or (rd_declared d k))"

text \<open>
  \<^verbatim>\<open>GetOk\<close> returns the value and whether the attribute has been set to a
  non-zero value: a string attribute set to the empty string is reported as
  not set.
\<close>

definition GetOk :: "ResourceData \<Rightarrow> string \<Rightarrow> string \<times> bool" where
  "GetOk d k =
     (let exists = (rd_writer d k \<noteq> None \<or> rd_declared d k \<noteq> None)
      in (Get d k, exists \<and> Get d k \<noteq> ''''))"

text \<open>\<^verbatim>\<open>HasChange\<close> compares the old (state) and the new (declared) value.\<close>

definition HasChange :: "ResourceData \<Rightarrow> string \<Rightarrow> bool" where
  "HasChange d k = (zero_or (rd_state d k) \<noteq> zero_or (rd_declared d k))"

text \<open>
  \<^verbatim>\<open>Set\<close> takes a string or a pointer to one; a nil pointer stores the empty
  string. It fails on a key that the schema does not have.
\<close>

definition Set :: "ResourceData \<Rightarrow> string \<Rightarrow> string option \<Rightarrow> error + ResourceData" where
  "Set d k v =
     (if k \<in> set schema_keys
      then Inr (d\<lparr>rd_writer := (rd_writer d)(k \<mapsto> zero_or v)\<rparr>)
      else Inl (''Invalid address to set: '' @ k))"

subsection \<open>Read (lines 126 to 187)\<close>

text \<open>
  The twelve assignments of lines 149 to 184, in the order of the source. A
  value is either a string pointer handed to \<^verbatim>\<open>Set\<close> as it is, or a timestamp
  pointer on which \<^verbatim>\<open>String()\<close> is called first: that call dereferences the
  pointer.
\<close>

datatype assigned = Ptr "string option" | TimeString "DateTime option"

definition assignments :: "Enterprise \<Rightarrow> (string \<times> assigned) list" where
  "assignments enterprise =
     [(''name'', Ptr (ent_Name enterprise)),
      (''primary_contact_iam_id'', Ptr (ent_PrimaryContactIamID enterprise)),
      (''domain'', Ptr (ent_Domain enterprise)),
      (''url'', Ptr (ent_URL enterprise)),
      (''enterprise_account_id'', Ptr (ent_EnterpriseAccountID enterprise)),
      (''crn'', Ptr (ent_CRN enterprise)),
      (''state'', Ptr (ent_State enterprise)),
      (''primary_contact_email'', Ptr (ent_PrimaryContactEmail enterprise)),
      (''created_at'', TimeString (ent_CreatedAt enterprise)),
      (''created_by'', Ptr (ent_CreatedBy enterprise)),
      (''updated_at'', TimeString (ent_UpdatedAt enterprise)),
      (''updated_by'', Ptr (ent_UpdatedBy enterprise))]"

text \<open>
  One statement \<^verbatim>\<open>if err = d.Set(k, v); err != nil { return diag.FromErr(...) }\<close>
  after the other; \<open>String\<close> is the rendering of a timestamp
  (\<^verbatim>\<open>strfmt.DateTime.String\<close>).
\<close>

fun set_each ::
  "(DateTime \<Rightarrow> string) \<Rightarrow> (string \<times> assigned) list \<Rightarrow> ResourceData \<Rightarrow> exit \<times> ResourceData"
where
  "set_each String [] d = (Return diag_nil, d)"
| "set_each String ((k, Ptr v) # rest) d =
     (case Set d k v of
        Inl err \<Rightarrow> (Return (FromErr (''[ERROR] Error setting '' @ k @ '': '' @ err)), d)
      | Inr d' \<Rightarrow> set_each String rest d')"
| "set_each String ((k, TimeString None) # rest) d = (Panic, d)"
| "set_each String ((k, TimeString (Some t)) # rest) d =
     (case Set d k (Some (String t)) of
        Inl err \<Rightarrow> (Return (FromErr (''[ERROR] Error setting '' @ k @ '': '' @ err)), d)
      | Inr d' \<Rightarrow> set_each String rest d')"

definition resourceIbmEnterpriseRead ::
  "(DateTime \<Rightarrow> string) \<Rightarrow> ResourceData \<Rightarrow> 'r ClientSession \<Rightarrow> 'r world
     \<Rightarrow> exit \<times> ResourceData \<times> 'r world"
where
  "resourceIbmEnterpriseRead String d meta w =
     (case meta of
        Inl err \<Rightarrow> (Return (FromErr err), d, w)
      | Inr enterpriseManagementClient \<Rightarrow>
          (let getEnterpriseOptions = go_SetEnterpriseID (Id_rd d) \<lparr>go_EnterpriseID = None\<rparr>;
               ((enterprise, response, err), r') =
                  GetEnterpriseWithContext enterpriseManagementClient getEnterpriseOptions (remote w);
               w' = issue (GetEnterpriseCall getEnterpriseOptions) r' w
           in case err of
                Some e \<Rightarrow>
                  (case response of
                     Some resp \<Rightarrow>
                       if StatusCode resp = 404 then (Return diag_nil, SetId [] d, w')
                       else (Return (FromErr e), d, w')
                   | None \<Rightarrow> (Return (FromErr e), d, w'))
              | None \<Rightarrow>
                  (case enterprise of
                     None \<Rightarrow> (Panic, d, w')
                   | Some ent \<Rightarrow>
                       (let (x, d') = set_each String (assignments ent) d in (x, d', w')))))"

subsection \<open>Create (lines 105 to 124)\<close>

text \<open>The request of lines 110 to 116.\<close>

definition createEnterpriseOptions :: "ResourceData \<Rightarrow> CreateEnterpriseOptions" where
  "createEnterpriseOptions d =
     (let opts = \<lparr>co_SourceAccountID = None, co_Name = None,
                   co_PrimaryContactIamID = None, co_Domain = None\<rparr>;
          opts = co_SetSourceAccountID (Get d ''source_account_id'') opts;
          opts = co_SetName (Get d ''name'') opts;
          opts = co_SetPrimaryContactIamID (Get d ''primary_contact_iam_id'') opts
      in if snd (GetOk d ''domain'') then co_SetDomain (Get d ''domain'') opts else opts)"

definition resourceIbmEnterpriseCreate ::
  "(DateTime \<Rightarrow> string) \<Rightarrow> ResourceData \<Rightarrow> 'r ClientSession \<Rightarrow> 'r world
     \<Rightarrow> exit \<times> ResourceData \<times> 'r world"
where
  "resourceIbmEnterpriseCreate String d meta w =
     (case meta of
        Inl err \<Rightarrow> (Return (FromErr err), d, w)
      | Inr enterpriseManagementClient \<Rightarrow>
          (let opts = createEnterpriseOptions d;
               ((createEnterpriseResponse, response, err), r') =
                  CreateEnterpriseWithContext enterpriseManagementClient opts (remote w);
               w' = issue (CreateEnterpriseCall opts) r' w
           in case err of
                Some e \<Rightarrow> (Return (FromErr e), d, w')
              | None \<Rightarrow>
                  (case createEnterpriseResponse of
                     None \<Rightarrow> (Panic, d, w')
                   | Some resp \<Rightarrow>
                       (case cr_EnterpriseID resp of
                          None \<Rightarrow> (Panic, d, w')
                        | Some enterpriseID \<Rightarrow>
                            resourceIbmEnterpriseRead String (SetId enterpriseID d) meta w'))))"

subsection \<open>Update (lines 189 to 228)\<close>

text \<open>The request of lines 195 to 217 and the flag \<^verbatim>\<open>hasChange\<close>.\<close>

definition updateEnterpriseOptions :: "ResourceData \<Rightarrow> UpdateEnterpriseOptions \<times> bool" where
  "updateEnterpriseOptions d =
     (let opts = \<lparr>uo_EnterpriseID = None, uo_Name = None, uo_Domain = None,
                   uo_PrimaryContactIamID = None\<rparr>;
          opts = uo_SetEnterpriseID (Id_rd d) opts;
          hasChange = False;
          (opts, hasChange) =
             (if HasChange d ''name''
              then (uo_SetName (Get d ''name'') opts, True) else (opts, hasChange));
          (opts, hasChange) =
             (if HasChange d ''primary_contact_iam_id''
              then (uo_SetPrimaryContactIamID (Get d ''primary_contact_iam_id'') opts, True)
              else (opts, hasChange));
          (opts, hasChange) =
             (if HasChange d ''domain''
              then (uo_SetDomain (Get d ''domain'') opts, True) else (opts, hasChange))
      in (opts, hasChange))"

definition resourceIbmEnterpriseUpdate ::
  "(DateTime \<Rightarrow> string) \<Rightarrow> ResourceData \<Rightarrow> 'r ClientSession \<Rightarrow> 'r world
     \<Rightarrow> exit \<times> ResourceData \<times> 'r world"
where
  "resourceIbmEnterpriseUpdate String d meta w =
     (case meta of
        Inl err \<Rightarrow> (Return (FromErr err), d, w)
      | Inr enterpriseManagementClient \<Rightarrow>
          (let (opts, hasChange) = updateEnterpriseOptions d
           in if hasChange
              then (let ((response, err), r') =
                          UpdateEnterpriseWithContext enterpriseManagementClient opts (remote w);
                        w' = issue (UpdateEnterpriseCall opts) r' w
                    in case err of
                         Some e \<Rightarrow> (Return (FromErr e), d, w')
                       | None \<Rightarrow> resourceIbmEnterpriseRead String d meta w')
              else resourceIbmEnterpriseRead String d meta w))"

subsection \<open>Delete (lines 230 to 234)\<close>

definition resourceIbmEnterpriseDelete ::
  "ResourceData \<Rightarrow> 'r ClientSession \<Rightarrow> 'r world \<Rightarrow> exit \<times> ResourceData \<times> 'r world"
where
  "resourceIbmEnterpriseDelete d meta w = (Return diag_nil, SetId [] d, w)"

text \<open>The update requests in a log of calls.\<close>

fun update_calls :: "call list \<Rightarrow> UpdateEnterpriseOptions list" where
  "update_calls [] = []"
| "update_calls (UpdateEnterpriseCall opts # cs) = opts # update_calls cs"
| "update_calls (c # cs) = update_calls cs"

fun get_calls :: "call list \<Rightarrow> GetEnterpriseOptions list" where
  "get_calls [] = []"
| "get_calls (GetEnterpriseCall opts # cs) = opts # get_calls cs"
| "get_calls (c # cs) = get_calls cs"

subsection \<open>The validator of primary_contact_iam_id (line 49)\<close>

text \<open>
  The pattern of line 49 is \<^verbatim>\<open>^IBMid\-[A-Z,0-9]{10}$\<close>: anchored at both ends, six
  literal characters, then ten characters of one class. Inside the brackets
  of a class a comma is a literal member, like any other character that is
  not part of a range. Without the multi-line flag, \<^verbatim>\<open>$\<close> matches at the end of
  the text only.

  A pattern is kept as its list of pieces between the two anchors; a piece
  is a literal character, a class, or a class repeated a fixed number of
  times.
\<close>

datatype atom = Member char | Span char char

datatype piece = Literal char | Class "atom list" | Times "atom list" nat

fun in_atom :: "char \<Rightarrow> atom \<Rightarrow> bool" where
  "in_atom c (Member a) = (c = a)"
| "in_atom c (Span lo hi) = ((of_char lo :: nat) \<le> of_char c \<and> (of_char c :: nat) \<le> of_char hi)"

definition match_class :: "atom list \<Rightarrow> string \<Rightarrow> string option" where
  "match_class as s =
     (case s of [] \<Rightarrow> None | c # cs \<Rightarrow> if list_ex (in_atom c) as then Some cs else None)"

fun match_times :: "atom list \<Rightarrow> nat \<Rightarrow> string \<Rightarrow> string option" where
  "match_times as 0 s = Some s"
| "match_times as (Suc n) s =
     (case match_class as s of None \<Rightarrow> None | Some rest \<Rightarrow> match_times as n rest)"

fun match_piece :: "piece \<Rightarrow> string \<Rightarrow> string option" where
  "match_piece (Literal a) s = (case s of [] \<Rightarrow> None | c # cs \<Rightarrow> if c = a then Some cs else None)"
| "match_piece (Class as) s = match_class as s"
| "match_piece (Times as n) s = match_times as n s"

fun match_anchored :: "piece list \<Rightarrow> string \<Rightarrow> bool" where
  "match_anchored [] s = (s = [])"
| "match_anchored (p # ps) s =
     (case match_piece p s of None \<Rightarrow> False | Some rest \<Rightarrow> match_anchored ps rest)"

text \<open>The pattern of line 49.\<close>

definition iam_id_regex :: "piece list" where
  "iam_id_regex =
     [Literal CHR ''I'', Literal CHR ''B'', Literal CHR ''M'', Literal CHR ''i'', Literal CHR ''d'', Literal CHR ''-'',
      Times [Span CHR ''A'' CHR ''Z'', Member CHR '','', Span CHR ''0'' CHR ''9''] 10]"

text \<open>
  Modelled from the spec: \<^verbatim>\<open>validate.ValidateRegexps\<close> (package ibm/validate)
  is not among the sources. By the spec the value "must match the pattern":
  the validator returns no error when the value matches the regular
  expression and one error otherwise; it returns no warnings.
\<close>

definition ValidateRegexps :: "piece list \<Rightarrow> string \<Rightarrow> string \<Rightarrow> string list \<times> error list" where
  "ValidateRegexps regex v k =
     (if match_anchored regex v then ([], [])
      else ([], [k @ '' ('' @ v @ '') should match regexp '']))"

subsection \<open>Concrete instances\<close>

text \<open>
  A client whose three methods answer with fixed results and leave the remote
  state alone, a declared configuration, and a remote entity, for evaluating
  the operations at concrete inputs.
\<close>

definition scripted ::
  "(CreateEnterpriseResponse option \<times> DetailedResponse option \<times> error option)
     \<Rightarrow> (Enterprise option \<times> DetailedResponse option \<times> error option)
     \<Rightarrow> (DetailedResponse option \<times> error option) \<Rightarrow> unit EnterpriseManagementV1"
where
  "scripted c g u =
     \<lparr>CreateEnterpriseWithContext = (\<lambda>opts r. (c, r)),
      GetEnterpriseWithContext = (\<lambda>opts r. (g, r)),
      UpdateEnterpriseWithContext = (\<lambda>opts r. (u, r))\<rparr>"

definition status :: "int \<Rightarrow> DetailedResponse option" where
  "status n = Some \<lparr>StatusCode = n\<rparr>"

definition created :: "CreateEnterpriseResponse option \<times> DetailedResponse option \<times> error option" where
  "created =
     (Some \<lparr>cr_EnterpriseID = Some ''ent-123'', cr_EnterpriseAccountID = Some ''acc-9''\<rparr>,
      status 202, None)"

definition acme :: Enterprise where
  "acme =
     \<lparr>ent_URL = Some ''/v1/enterprises/ent-123'', ent_ID = Some ''ent-123'',
      ent_EnterpriseAccountID = Some ''acc-9'', ent_CRN = Some ''crn:v1:ent-123'',
      ent_Name = Some ''Acme Corp'', ent_Domain = Some ''acme.com'',
      ent_State = Some ''active'', ent_PrimaryContactIamID = Some ''IBMid-AB12CD34EF'',
      ent_PrimaryContactEmail = Some ''owner@acme.com'',
      ent_CreatedAt = Some (DateTime 1), ent_CreatedBy = Some ''IBMid-AB12CD34EF'',
      ent_UpdatedAt = Some (DateTime 2), ent_UpdatedBy = Some ''IBMid-ZZ12CD34EF''\<rparr>"

definition fetched :: "Enterprise \<Rightarrow> Enterprise option \<times> DetailedResponse option \<times> error option" where
  "fetched e = (Some e, status 200, None)"

definition failed :: "int \<Rightarrow> error \<Rightarrow> 'a option \<times> DetailedResponse option \<times> error option" where
  "failed n e = (None, status n, Some e)"

definition rfc3339 :: "DateTime \<Rightarrow> string" where
  "rfc3339 t = (case t of DateTime n \<Rightarrow>
      if n = 1 then ''2021-01-01T00:00:00.000Z'' else ''2021-06-01T00:00:00.000Z'')"

definition world0 :: "unit world" where
  "world0 = \<lparr>remote = (), calls = []\<rparr>"

definition declared_acme :: "(string \<times> string) list" where
  "declared_acme =
     [(''source_account_id'', ''acc-1''), (''name'', ''Acme Corp''),
      (''primary_contact_iam_id'', ''IBMid-AB12CD34EF''), (''domain'', ''acme.com'')]"

text \<open>Before creation: no identifier, no state.\<close>

definition d_new :: ResourceData where
  "d_new = \<lparr>rd_Id = [], rd_state = Map.empty, rd_declared = map_of declared_acme,
            rd_writer = Map.empty\<rparr>"

text \<open>The same configuration with the domain omitted, and with the domain given as the empty string.\<close>

definition d_domain_omitted :: ResourceData where
  "d_domain_omitted = d_new\<lparr>rd_declared := (map_of declared_acme)(''domain'' := None)\<rparr>"

definition d_domain_empty :: ResourceData where
  "d_domain_empty = d_new\<lparr>rd_declared := (map_of declared_acme)(''domain'' \<mapsto> [])\<rparr>"

text \<open>A present instance whose configuration is unchanged, and one whose declared domain changed.\<close>

definition d_unchanged :: ResourceData where
  "d_unchanged = \<lparr>rd_Id = ''ent-123'', rd_state = map_of declared_acme,
                  rd_declared = map_of declared_acme, rd_writer = Map.empty\<rparr>"

definition d_domain_changed :: ResourceData where
  "d_domain_changed =
     d_unchanged\<lparr>rd_declared := (map_of declared_acme)(''domain'' \<mapsto> ''sub.acme.com'')\<rparr>"

subsection \<open>Predicates for stating the properties\<close>

text \<open>
  An instance is hydrated from a remote entity when each of the twelve
  attributes that Read refreshes reads as the value of the entity: a string
  pointer as its string (nil as the empty string), a timestamp as its
  rendering.
\<close>

definition hydrated :: "(DateTime \<Rightarrow> string) \<Rightarrow> Enterprise \<Rightarrow> ResourceData \<Rightarrow> bool" where
  "hydrated String e d =
     (Get d ''name'' = zero_or (ent_Name e) \<and>
      Get d ''primary_contact_iam_id'' = zero_or (ent_PrimaryContactIamID e) \<and>
      Get d ''domain'' = zero_or (ent_Domain e) \<and>
      Get d ''url'' = zero_or (ent_URL e) \<and>
      Get d ''enterprise_account_id'' = zero_or (ent_EnterpriseAccountID e) \<and>
      Get d ''crn'' = zero_or (ent_CRN e) \<and>
      Get d ''state'' = zero_or (ent_State e) \<and>
      Get d ''primary_contact_email'' = zero_or (ent_PrimaryContactEmail e) \<and>
      Some (Get d ''created_at'') = map_option String (ent_CreatedAt e) \<and>
      Get d ''created_by'' = zero_or (ent_CreatedBy e) \<and>
      Some (Get d ''updated_at'') = map_option String (ent_UpdatedAt e) \<and>
      Get d ''updated_by'' = zero_or (ent_UpdatedBy e))"

text \<open>
  The values that the specification describes for
  \<^verbatim>\<open>primary_contact_iam_id\<close>: the prefix \<^verbatim>\<open>IBMid-\<close> followed by exactly ten
  characters, each an uppercase letter or a digit.
\<close>

definition upper_alnum :: "char \<Rightarrow> bool" where
  "upper_alnum c =
     (((of_char CHR ''A'' :: nat) \<le> of_char c \<and> (of_char c :: nat) \<le> of_char CHR ''Z'') \<or>
      ((of_char CHR ''0'' :: nat) \<le> of_char c \<and> (of_char c :: nat) \<le> of_char CHR ''9''))"

definition iam_id_claimed :: "string \<Rightarrow> bool" where
  "iam_id_claimed v = (take 6 v = ''IBMid-'' \<and> length v = 16 \<and> list_all upper_alnum (drop 6 v))"

section \<open>Auxiliary facts\<close>

lemmas co_setters =
  co_SetSourceAccountID_def co_SetName_def co_SetPrimaryContactIamID_def co_SetDomain_def

lemmas uo_setters =
  uo_SetEnterpriseID_def uo_SetName_def uo_SetPrimaryContactIamID_def uo_SetDomain_def

subsection \<open>The assignments of Read\<close>

lemma set_each_assignments:
  assumes "ent_CreatedAt e = Some c" and "ent_UpdatedAt e = Some u"
  shows "set_each String (assignments e) d =
     (Return diag_nil,
      d\<lparr>rd_writer := (rd_writer d)
         (''name'' \<mapsto> zero_or (ent_Name e),
          ''primary_contact_iam_id'' \<mapsto> zero_or (ent_PrimaryContactIamID e),
          ''domain'' \<mapsto> zero_or (ent_Domain e),
          ''url'' \<mapsto> zero_or (ent_URL e),
          ''enterprise_account_id'' \<mapsto> zero_or (ent_EnterpriseAccountID e),
          ''crn'' \<mapsto> zero_or (ent_CRN e),
          ''state'' \<mapsto> zero_or (ent_State e),
          ''primary_contact_email'' \<mapsto> zero_or (ent_PrimaryContactEmail e),
          ''created_at'' \<mapsto> String c,
          ''created_by'' \<mapsto> zero_or (ent_CreatedBy e),
          ''updated_at'' \<mapsto> String u,
          ''updated_by'' \<mapsto> zero_or (ent_UpdatedBy e))\<rparr>)"
  using assms by (simp add: assignments_def Set_def schema_keys_def zero_or_def)

lemma set_each_hydrated:
  assumes "ent_CreatedAt e = Some c" and "ent_UpdatedAt e = Some u"
  shows "fst (set_each String (assignments e) d) = Return diag_nil"
    and "hydrated String e (snd (set_each String (assignments e) d))"
    and "rd_Id (snd (set_each String (assignments e) d)) = rd_Id d"
  using assms by (simp_all add: set_each_assignments hydrated_def Get_def)

lemma set_each_panics:
  assumes "ent_CreatedAt e = None \<or> ent_UpdatedAt e = None"
  shows "fst (set_each String (assignments e) d) = Panic"
proof (cases "ent_CreatedAt e")
  case None
  then show ?thesis by (simp add: assignments_def Set_def schema_keys_def)
next
  case (Some c)
  with assms have "ent_UpdatedAt e = None" by simp
  with Some show ?thesis by (simp add: assignments_def Set_def schema_keys_def)
qed

lemma read_fetched:
  assumes "GetEnterpriseWithContext client
             (go_SetEnterpriseID (Id_rd d) \<lparr>go_EnterpriseID = None\<rparr>) (remote w)
           = ((Some e, response, None), r')"
  shows "resourceIbmEnterpriseRead String d (Inr client) w
         = (fst (set_each String (assignments e) d), snd (set_each String (assignments e) d),
            issue (GetEnterpriseCall (go_SetEnterpriseID (Id_rd d) \<lparr>go_EnterpriseID = None\<rparr>)) r' w)"
  using assms by (simp add: resourceIbmEnterpriseRead_def split: prod.splits)

lemma read_failed:
  assumes "GetEnterpriseWithContext client
             (go_SetEnterpriseID (Id_rd d) \<lparr>go_EnterpriseID = None\<rparr>) (remote w)
           = ((enterprise, response, Some e), r')"
  shows "resourceIbmEnterpriseRead String d (Inr client) w
         = (case response of
              None \<Rightarrow> (Return (FromErr e), d,
                 issue (GetEnterpriseCall (go_SetEnterpriseID (Id_rd d) \<lparr>go_EnterpriseID = None\<rparr>)) r' w)
            | Some resp \<Rightarrow>
                if StatusCode resp = 404
                then (Return diag_nil, SetId [] d,
                  issue (GetEnterpriseCall (go_SetEnterpriseID (Id_rd d) \<lparr>go_EnterpriseID = None\<rparr>)) r' w)
                else (Return (FromErr e), d,
                  issue (GetEnterpriseCall (go_SetEnterpriseID (Id_rd d) \<lparr>go_EnterpriseID = None\<rparr>)) r' w))"
  using assms by (simp add: resourceIbmEnterpriseRead_def Let_def split: option.splits)

lemma update_calls_append: "update_calls (xs @ ys) = update_calls xs @ update_calls ys"
  by (induction xs rule: update_calls.induct) simp_all

lemma read_calls:
  "calls (snd (snd (resourceIbmEnterpriseRead String d (Inr client) w)))
     = calls w @ [GetEnterpriseCall (go_SetEnterpriseID (Id_rd d) \<lparr>go_EnterpriseID = None\<rparr>)]"
  by (simp add: resourceIbmEnterpriseRead_def issue_def Let_def split: prod.splits option.splits)

lemma updateEnterpriseOptions_fields:
  "uo_EnterpriseID (fst (updateEnterpriseOptions d)) = Some (Id_rd d)"
  "uo_Name (fst (updateEnterpriseOptions d)) = (if HasChange d ''name'' then Some (Get d ''name'') else None)"
  "uo_PrimaryContactIamID (fst (updateEnterpriseOptions d))
     = (if HasChange d ''primary_contact_iam_id'' then Some (Get d ''primary_contact_iam_id'') else None)"
  "uo_Domain (fst (updateEnterpriseOptions d)) = (if HasChange d ''domain'' then Some (Get d ''domain'') else None)"
  "snd (updateEnterpriseOptions d)
     = (HasChange d ''name'' \<or> HasChange d ''primary_contact_iam_id'' \<or> HasChange d ''domain'')"
  by (simp_all add: updateEnterpriseOptions_def uo_setters Let_def)

lemma carried_updateEnterpriseOptions:
  "carried (fst (updateEnterpriseOptions d))
     = {k \<in> {''name'', ''primary_contact_iam_id'', ''domain''}. HasChange d k}"
  by (auto simp add: carried_def updateEnterpriseOptions_fields)

lemma update_unfolded:
  assumes "updateEnterpriseOptions d = (opts, hasChange)"
      and "UpdateEnterpriseWithContext client opts (remote w) = ((response, err), r')"
  shows "resourceIbmEnterpriseUpdate String d (Inr client) w =
           (if hasChange
            then (case err of
                    Some e \<Rightarrow> (Return (FromErr e), d, issue (UpdateEnterpriseCall opts) r' w)
                  | None \<Rightarrow> resourceIbmEnterpriseRead String d (Inr client)
                              (issue (UpdateEnterpriseCall opts) r' w))
            else resourceIbmEnterpriseRead String d (Inr client) w)"
  using assms by (simp add: resourceIbmEnterpriseUpdate_def Let_def)

lemma create_created:
  assumes "CreateEnterpriseWithContext client (createEnterpriseOptions d) (remote w)
           = ((Some resp, response, None), r')"
      and "cr_EnterpriseID resp = Some enterpriseID"
  shows "resourceIbmEnterpriseCreate String d (Inr client) w
         = resourceIbmEnterpriseRead String (SetId enterpriseID d) (Inr client)
             (issue (CreateEnterpriseCall (createEnterpriseOptions d)) r' w)"
  using assms by (simp add: resourceIbmEnterpriseCreate_def Let_def)

lemma create_calls:
  "take (Suc (length (calls w))) (calls (snd (snd (resourceIbmEnterpriseCreate String d (Inr client) w))))
     = calls w @ [CreateEnterpriseCall (createEnterpriseOptions d)]"
  by (simp add: resourceIbmEnterpriseCreate_def read_calls issue_def Let_def
      split: prod.splits option.splits)

subsection \<open>The language of the pattern\<close>

lemma match_times_Some:
  "match_times as n s = Some rest
     \<longleftrightarrow> n \<le> length s \<and> list_all (\<lambda>c. list_ex (in_atom c) as) (take n s) \<and> rest = drop n s"
proof (induction n arbitrary: s)
  case 0
  show ?case by auto
next
  case (Suc n)
  show ?case
  proof (cases s)
    case Nil
    then show ?thesis by (simp add: match_class_def)
  next
    case (Cons c cs)
    with Suc show ?thesis by (simp add: match_class_def)
  qed
qed

lemma match_prefix:
  "match_anchored (Literal a # ps) s = (\<exists>cs. s = a # cs \<and> match_anchored ps cs)"
  by (cases s) auto

lemma match_last:
  "match_anchored [Times as n] s = (length s = n \<and> list_all (\<lambda>c. list_ex (in_atom c) as) s)"
proof (cases "match_times as n s")
  case None
  then have "\<not> (n \<le> length s \<and> list_all (\<lambda>c. list_ex (in_atom c) as) (take n s))"
    using match_times_Some [of as n s "drop n s"] by simp
  with None show ?thesis by auto
next
  case (Some rest)
  then have "n \<le> length s" "list_all (\<lambda>c. list_ex (in_atom c) as) (take n s)" "rest = drop n s"
    by (simp_all add: match_times_Some)
  with Some show ?thesis by auto
qed

lemma iam_id_regex_language:
  "match_anchored iam_id_regex v
     \<longleftrightarrow> (\<exists>t. v = ''IBMid-'' @ t \<and> length t = 10
              \<and> list_all (\<lambda>c. upper_alnum c \<or> c = CHR '','') t)"
proof -
  have cls: "list_ex (in_atom c) [Span CHR ''A'' CHR ''Z'', Member CHR '','', Span CHR ''0'' CHR ''9'']
               = (upper_alnum c \<or> c = CHR '','')" for c
    by (auto simp add: upper_alnum_def)
  show ?thesis
    by (simp only: iam_id_regex_def match_prefix match_last cls) auto
qed

section \<open>Properties\<close>

subsection \<open>Read on a remote that reports not-found\<close>

text \<open>
  Claim C2. Whenever the remote fetch of Read fails and its response has
  status 404, Read clears the identifier of the instance and returns without
  a diagnostic: the not-found answer is a transition to the absent instance,
  never an error. The fetch is the only remote call.
\<close>

theorem read_not_found_clears_id:
  assumes "GetEnterpriseWithContext client
             (go_SetEnterpriseID (Id_rd d) \<lparr>go_EnterpriseID = None\<rparr>) (remote w)
           = ((enterprise, Some resp, Some e), r')"
      and "StatusCode resp = 404"
  shows "resourceIbmEnterpriseRead String d (Inr client) w
           = (Return diag_nil, SetId [] d,
              issue (GetEnterpriseCall (go_SetEnterpriseID (Id_rd d) \<lparr>go_EnterpriseID = None\<rparr>)) r' w)
         \<and> Id_rd (SetId [] d) = []"
  using assms by (simp add: resourceIbmEnterpriseRead_def Id_rd_def SetId_def)

theorem read_not_found_clears_id_witness:
  "GetEnterpriseWithContext (scripted created (failed 404 ''not found'') (None, None))
     (go_SetEnterpriseID (Id_rd d_unchanged) \<lparr>go_EnterpriseID = None\<rparr>) (remote world0)
     = ((None, Some \<lparr>StatusCode = 404\<rparr>, Some ''not found''), ())
   \<and> StatusCode \<lparr>StatusCode = 404\<rparr> = 404
   \<and> resourceIbmEnterpriseRead rfc3339 d_unchanged
        (Inr (scripted created (failed 404 ''not found'') (None, None))) world0
     = (Return diag_nil, d_unchanged\<lparr>rd_Id := []\<rparr>,
        \<lparr>remote = (), calls = [GetEnterpriseCall \<lparr>go_EnterpriseID = Some ''ent-123''\<rparr>]\<rparr>)"
  using read_not_found_clears_id
    [of "scripted created (failed 404 ''not found'') (None, None)" d_unchanged world0
        None "\<lparr>StatusCode = 404\<rparr>" "''not found''" "()" rfc3339]
  by (simp add: scripted_def failed_def status_def world0_def d_unchanged_def issue_def
      go_SetEnterpriseID_def Id_rd_def SetId_def)

subsection \<open>Create on a remote that refuses\<close>

text \<open>
  Claim C3. Whenever the remote creation call of Create returns an error,
  Create returns exactly that error and leaves the instance as it was: the
  identifier is not assigned, so an instance without identifier stays without
  one. The creation call is the only remote call.
\<close>

theorem create_failure_returns_error:
  assumes "CreateEnterpriseWithContext client (createEnterpriseOptions d) (remote w)
           = ((resp, response, Some e), r')"
  shows "resourceIbmEnterpriseCreate String d (Inr client) w
           = (Return (FromErr e), d, issue (CreateEnterpriseCall (createEnterpriseOptions d)) r' w)
         \<and> Id_rd (fst (snd (resourceIbmEnterpriseCreate String d (Inr client) w))) = Id_rd d"
  using assms by (simp add: resourceIbmEnterpriseCreate_def)

theorem create_failure_returns_error_witness:
  "CreateEnterpriseWithContext (scripted (failed 500 ''create refused'') (fetched acme) (None, None))
     (createEnterpriseOptions d_new) (remote world0)
     = ((None, Some \<lparr>StatusCode = 500\<rparr>, Some ''create refused''), ())
   \<and> fst (resourceIbmEnterpriseCreate rfc3339 d_new
        (Inr (scripted (failed 500 ''create refused'') (fetched acme) (None, None))) world0)
     = Return (FromErr ''create refused'')
   \<and> Id_rd (fst (snd (resourceIbmEnterpriseCreate rfc3339 d_new
        (Inr (scripted (failed 500 ''create refused'') (fetched acme) (None, None))) world0))) = []"
  using create_failure_returns_error
    [of "scripted (failed 500 ''create refused'') (fetched acme) (None, None)" d_new world0
        None "Some \<lparr>StatusCode = 500\<rparr>" "''create refused''" "()" rfc3339]
  by (simp add: scripted_def failed_def status_def world0_def d_new_def Id_rd_def)

subsection \<open>Delete\<close>

text \<open>
  Claim C6, as the specification states it, makes Delete return an
  invalid-state error when the identifier is already unset. The source has no
  such check: on an instance without identifier Delete returns without a
  diagnostic.
\<close>

theorem delete_unset_id_succeeds:
  "Id_rd d_new = [] \<and>
   fst (resourceIbmEnterpriseDelete d_new
         (Inr (scripted created (fetched acme) (None, None))) world0) = Return diag_nil"
  by (simp add: resourceIbmEnterpriseDelete_def d_new_def Id_rd_def)

text \<open>
  Claim C6, amended. For every instance, session and world, Delete issues no
  remote call (the world, with its log of calls, is returned as it was),
  clears the identifier and returns without a diagnostic, also when the
  identifier was already unset.
\<close>

theorem delete_always_succeeds:
  "resourceIbmEnterpriseDelete d meta w = (Return diag_nil, SetId [] d, w)
   \<and> Id_rd (SetId [] d) = []
   \<and> calls (snd (snd (resourceIbmEnterpriseDelete d meta w))) = calls w"
  by (simp add: resourceIbmEnterpriseDelete_def SetId_def Id_rd_def)

subsection \<open>A session without client\<close>

text \<open>
  Claim C7, as the specification states it, makes each of the four operations
  fail when the client cannot be obtained. Delete never asks the session for
  the client: with a session that has none it still succeeds.
\<close>

theorem delete_without_client_succeeds:
  "resourceIbmEnterpriseDelete d_unchanged (Inl ''no credentials'') world0
     = (Return diag_nil, d_unchanged\<lparr>rd_Id := []\<rparr>, world0)"
  by (simp add: resourceIbmEnterpriseDelete_def SetId_def)

text \<open>
  Claim C7, amended. When the session returns an error instead of the client,
  Create, Read and Update return that error before any other work: the
  instance and the world are unchanged, so no remote call was issued. Delete
  does not obtain the client; it clears the identifier and succeeds.
\<close>

theorem client_unavailable:
  "resourceIbmEnterpriseCreate String d (Inl err) w = (Return (FromErr err), d, w)
   \<and> resourceIbmEnterpriseRead String d (Inl err) w = (Return (FromErr err), d, w)
   \<and> resourceIbmEnterpriseUpdate String d (Inl err) w = (Return (FromErr err), d, w)
   \<and> resourceIbmEnterpriseDelete d (Inl err) w = (Return diag_nil, SetId [] d, w)"
  by (simp add: resourceIbmEnterpriseCreate_def resourceIbmEnterpriseRead_def
      resourceIbmEnterpriseUpdate_def resourceIbmEnterpriseDelete_def)

subsection \<open>Read on a remote that answers\<close>

text \<open>
  Claim C9, as the specification states it, covers every Read whose fetch
  succeeds. When the fetched entity has no \<^verbatim>\<open>created_at\<close>, line 173
  dereferences a nil pointer: Read panics, and the attributes assigned after
  that line are not overwritten, \<^verbatim>\<open>updated_by\<close> among them, although the
  remote returned a value for it.
\<close>

theorem read_nil_timestamp_stops:
  "GetEnterpriseWithContext (scripted created (fetched (acme\<lparr>ent_CreatedAt := None\<rparr>)) (None, None))
     (go_SetEnterpriseID (Id_rd d_domain_changed) \<lparr>go_EnterpriseID = None\<rparr>) (remote world0)
     = ((Some (acme\<lparr>ent_CreatedAt := None\<rparr>), status 200, None), ())
   \<and> fst (resourceIbmEnterpriseRead rfc3339 d_domain_changed
        (Inr (scripted created (fetched (acme\<lparr>ent_CreatedAt := None\<rparr>)) (None, None))) world0) = Panic
   \<and> ent_UpdatedBy (acme\<lparr>ent_CreatedAt := None\<rparr>) = Some ''IBMid-ZZ12CD34EF''
   \<and> Get (fst (snd (resourceIbmEnterpriseRead rfc3339 d_domain_changed
        (Inr (scripted created (fetched (acme\<lparr>ent_CreatedAt := None\<rparr>)) (None, None))) world0)))
        ''updated_by'' = []"
  by (simp add: resourceIbmEnterpriseRead_def Let_def scripted_def fetched_def acme_def assignments_def
      Set_def schema_keys_def Get_def zero_or_def d_domain_changed_def d_unchanged_def declared_acme_def)

text \<open>
  Claim C9, amended. Whenever the remote fetch of Read succeeds and returns
  an entity that carries both timestamps, Read returns without a diagnostic
  and each of name, primary_contact_iam_id, domain, url,
  enterprise_account_id, crn, state, primary_contact_email, created_at,
  created_by, updated_at and updated_by then reads as the value of the
  fetched entity (a nil string pointer as the empty string), the two
  timestamps as their canonical rendering \<open>String\<close>.
\<close>

theorem read_overwrites_attributes:
  assumes "GetEnterpriseWithContext client
             (go_SetEnterpriseID (Id_rd d) \<lparr>go_EnterpriseID = None\<rparr>) (remote w)
           = ((Some e, response, None), r')"
      and "ent_CreatedAt e = Some c" and "ent_UpdatedAt e = Some u"
      and "d' = fst (snd (resourceIbmEnterpriseRead String d (Inr client) w))"
  shows "fst (resourceIbmEnterpriseRead String d (Inr client) w) = Return diag_nil
       \<and> Get d' ''name'' = zero_or (ent_Name e)
       \<and> Get d' ''primary_contact_iam_id'' = zero_or (ent_PrimaryContactIamID e)
       \<and> Get d' ''domain'' = zero_or (ent_Domain e)
       \<and> Get d' ''url'' = zero_or (ent_URL e)
       \<and> Get d' ''enterprise_account_id'' = zero_or (ent_EnterpriseAccountID e)
       \<and> Get d' ''crn'' = zero_or (ent_CRN e)
       \<and> Get d' ''state'' = zero_or (ent_State e)
       \<and> Get d' ''primary_contact_email'' = zero_or (ent_PrimaryContactEmail e)
       \<and> Get d' ''created_at'' = String c
       \<and> Get d' ''created_by'' = zero_or (ent_CreatedBy e)
       \<and> Get d' ''updated_at'' = String u
       \<and> Get d' ''updated_by'' = zero_or (ent_UpdatedBy e)"
  using assms(2,3,4) set_each_hydrated [OF assms(2,3), of String d]
  by (simp add: read_fetched [OF assms(1)] hydrated_def)

theorem read_overwrites_attributes_witness:
  "GetEnterpriseWithContext (scripted created (fetched acme) (None, None))
     (go_SetEnterpriseID (Id_rd d_domain_changed) \<lparr>go_EnterpriseID = None\<rparr>) (remote world0)
     = ((Some acme, status 200, None), ())
   \<and> ent_CreatedAt acme = Some (DateTime 1) \<and> ent_UpdatedAt acme = Some (DateTime 2)
   \<and> fst (resourceIbmEnterpriseRead rfc3339 d_domain_changed
        (Inr (scripted created (fetched acme) (None, None))) world0) = Return diag_nil
   \<and> Get (fst (snd (resourceIbmEnterpriseRead rfc3339 d_domain_changed
        (Inr (scripted created (fetched acme) (None, None))) world0))) ''domain'' = ''acme.com''
   \<and> Get (fst (snd (resourceIbmEnterpriseRead rfc3339 d_domain_changed
        (Inr (scripted created (fetched acme) (None, None))) world0))) ''state'' = ''active''
   \<and> Get (fst (snd (resourceIbmEnterpriseRead rfc3339 d_domain_changed
        (Inr (scripted created (fetched acme) (None, None))) world0))) ''created_at''
       = ''2021-01-01T00:00:00.000Z''
   \<and> Get (fst (snd (resourceIbmEnterpriseRead rfc3339 d_domain_changed
        (Inr (scripted created (fetched acme) (None, None))) world0))) ''updated_at''
       = ''2021-06-01T00:00:00.000Z''"
proof -
  let ?c = "scripted created (fetched acme) (None, None)"
  have g: "GetEnterpriseWithContext ?c
     (go_SetEnterpriseID (Id_rd d_domain_changed) \<lparr>go_EnterpriseID = None\<rparr>) (remote world0)
     = ((Some acme, status 200, None), ())"
    by (simp add: scripted_def fetched_def)
  have t: "ent_CreatedAt acme = Some (DateTime 1)" "ent_UpdatedAt acme = Some (DateTime 2)"
    by (simp_all add: acme_def)
  from read_overwrites_attributes [OF g t refl, of rfc3339] g t
  show ?thesis by (simp add: acme_def zero_or_def rfc3339_def)
qed

text \<open>
  Claim C10. On the path of Read after a successful fetch, the timestamps are
  dereferenced without a nil check: Read completes without fault (and without
  diagnostic) exactly when the fetched entity carries both \<^verbatim>\<open>created_at\<close> and
  \<^verbatim>\<open>updated_at\<close>, and it panics exactly when one of them is nil.
\<close>

theorem read_timestamps_required:
  assumes "GetEnterpriseWithContext client
             (go_SetEnterpriseID (Id_rd d) \<lparr>go_EnterpriseID = None\<rparr>) (remote w)
           = ((Some e, response, None), r')"
  shows "(fst (resourceIbmEnterpriseRead String d (Inr client) w) = Return diag_nil)
           = (ent_CreatedAt e \<noteq> None \<and> ent_UpdatedAt e \<noteq> None)
       \<and> (fst (resourceIbmEnterpriseRead String d (Inr client) w) = Panic)
           = (ent_CreatedAt e = None \<or> ent_UpdatedAt e = None)"
proof (cases "ent_CreatedAt e = None \<or> ent_UpdatedAt e = None")
  case True
  from set_each_panics [OF True] True show ?thesis
    by (auto simp add: read_fetched [OF assms])
next
  case False
  then obtain c u where "ent_CreatedAt e = Some c" "ent_UpdatedAt e = Some u" by auto
  from set_each_hydrated(1) [OF this] this show ?thesis
    by (simp add: read_fetched [OF assms])
qed

theorem read_timestamps_required_witness:
  "fst (resourceIbmEnterpriseRead rfc3339 d_unchanged
        (Inr (scripted created (fetched acme) (None, None))) world0) = Return diag_nil
   \<and> fst (resourceIbmEnterpriseRead rfc3339 d_unchanged
        (Inr (scripted created (fetched (acme\<lparr>ent_CreatedAt := None\<rparr>)) (None, None))) world0) = Panic
   \<and> fst (resourceIbmEnterpriseRead rfc3339 d_unchanged
        (Inr (scripted created (fetched (acme\<lparr>ent_UpdatedAt := None\<rparr>)) (None, None))) world0) = Panic"
proof -
  have g: "GetEnterpriseWithContext (scripted created (fetched e) (None, None))
     (go_SetEnterpriseID (Id_rd d_unchanged) \<lparr>go_EnterpriseID = None\<rparr>) (remote world0)
     = ((Some e, status 200, None), ())" for e
    by (simp add: scripted_def fetched_def)
  from read_timestamps_required [OF g [of acme], of rfc3339]
       read_timestamps_required [OF g [of "acme\<lparr>ent_CreatedAt := None\<rparr>"], of rfc3339]
       read_timestamps_required [OF g [of "acme\<lparr>ent_UpdatedAt := None\<rparr>"], of rfc3339]
  show ?thesis by (simp add: acme_def)
qed

subsection \<open>Update\<close>

text \<open>
  Claim C1, as the specification states it, makes Update perform a Read after
  the remote update call in every case. When the update call fails, Update
  returns its error at once: the log holds the update call and no fetch.
\<close>

theorem update_failure_skips_read:
  "HasChange d_domain_changed ''domain''
   \<and> resourceIbmEnterpriseUpdate rfc3339 d_domain_changed
        (Inr (scripted created (fetched acme) (status 500, Some ''update refused''))) world0
     = (Return (FromErr ''update refused''), d_domain_changed,
        \<lparr>remote = (),
         calls = [UpdateEnterpriseCall \<lparr>uo_EnterpriseID = Some ''ent-123'', uo_Name = None,
                    uo_Domain = Some ''sub.acme.com'', uo_PrimaryContactIamID = None\<rparr>]\<rparr>)
   \<and> get_calls (calls (snd (snd (resourceIbmEnterpriseUpdate rfc3339 d_domain_changed
        (Inr (scripted created (fetched acme) (status 500, Some ''update refused''))) world0)))) = []"
  by (simp add: resourceIbmEnterpriseUpdate_def updateEnterpriseOptions_def uo_setters HasChange_def Let_def
      Get_def Id_rd_def zero_or_def d_domain_changed_def d_unchanged_def declared_acme_def
      scripted_def world0_def issue_def status_def)

text \<open>
  Claim C1, amended. For every Update invocation that obtains the client,
  where \<open>opts\<close> and \<open>hasChange\<close> are the request and the flag that Update
  builds: the flag is set exactly when one of name, primary_contact_iam_id and
  domain has a declared value that differs from the last-known one. Update
  issues no remote update call when the flag is not set and exactly one, with
  \<open>opts\<close>, when it is; \<open>opts\<close> carries exactly the changed attributes among
  the three, each with its declared value, and never source_account_id. When
  nothing changed, and when the update call succeeded, the outcome of Update
  is the outcome of a Read on the world reached so far; when the update call
  failed, Update returns its error, leaves the instance unchanged and performs
  no Read.
\<close>

theorem update_sends_changes_then_reads:
  assumes "updateEnterpriseOptions d = (opts, hasChange)"
      and "UpdateEnterpriseWithContext client opts (remote w) = ((response, err), r')"
  shows "hasChange = (HasChange d ''name'' \<or> HasChange d ''primary_contact_iam_id'' \<or> HasChange d ''domain'')
       \<and> update_calls (calls (snd (snd (resourceIbmEnterpriseUpdate String d (Inr client) w))))
           = update_calls (calls w) @ (if hasChange then [opts] else [])
       \<and> carried opts = {k \<in> {''name'', ''primary_contact_iam_id'', ''domain''}. HasChange d k}
       \<and> ''source_account_id'' \<notin> carried opts
       \<and> uo_Name opts = (if HasChange d ''name'' then Some (Get d ''name'') else None)
       \<and> uo_PrimaryContactIamID opts
           = (if HasChange d ''primary_contact_iam_id'' then Some (Get d ''primary_contact_iam_id'') else None)
       \<and> uo_Domain opts = (if HasChange d ''domain'' then Some (Get d ''domain'') else None)
       \<and> (\<not> hasChange \<longrightarrow>
            resourceIbmEnterpriseUpdate String d (Inr client) w
              = resourceIbmEnterpriseRead String d (Inr client) w)
       \<and> (hasChange \<and> err = None \<longrightarrow>
            resourceIbmEnterpriseUpdate String d (Inr client) w
              = resourceIbmEnterpriseRead String d (Inr client) (issue (UpdateEnterpriseCall opts) r' w))
       \<and> (\<forall>e. hasChange \<and> err = Some e \<longrightarrow>
            resourceIbmEnterpriseUpdate String d (Inr client) w
              = (Return (FromErr e), d, issue (UpdateEnterpriseCall opts) r' w))"
proof -
  have o: "opts = fst (updateEnterpriseOptions d)" and h: "hasChange = snd (updateEnterpriseOptions d)"
    using assms(1) by simp_all
  have flag: "hasChange = (HasChange d ''name'' \<or> HasChange d ''primary_contact_iam_id'' \<or> HasChange d ''domain'')"
    unfolding h by (rule updateEnterpriseOptions_fields)
  have log: "update_calls (calls (snd (snd (resourceIbmEnterpriseUpdate String d (Inr client) w))))
           = update_calls (calls w) @ (if hasChange then [opts] else [])"
    by (simp add: update_unfolded [OF assms] read_calls update_calls_append issue_def
        split: option.splits)
  have body: "carried opts = {k \<in> {''name'', ''primary_contact_iam_id'', ''domain''}. HasChange d k}"
    unfolding o by (rule carried_updateEnterpriseOptions)
  have immutable: "''source_account_id'' \<notin> carried opts"
    unfolding body by simp
  have fields: "uo_Name opts = (if HasChange d ''name'' then Some (Get d ''name'') else None)"
    "uo_PrimaryContactIamID opts
       = (if HasChange d ''primary_contact_iam_id'' then Some (Get d ''primary_contact_iam_id'') else None)"
    "uo_Domain opts = (if HasChange d ''domain'' then Some (Get d ''domain'') else None)"
    unfolding o by (rule updateEnterpriseOptions_fields)+
  have after: "\<not> hasChange \<longrightarrow>
            resourceIbmEnterpriseUpdate String d (Inr client) w
              = resourceIbmEnterpriseRead String d (Inr client) w"
    "hasChange \<and> err = None \<longrightarrow>
            resourceIbmEnterpriseUpdate String d (Inr client) w
              = resourceIbmEnterpriseRead String d (Inr client) (issue (UpdateEnterpriseCall opts) r' w)"
    "\<forall>e. hasChange \<and> err = Some e \<longrightarrow>
            resourceIbmEnterpriseUpdate String d (Inr client) w
              = (Return (FromErr e), d, issue (UpdateEnterpriseCall opts) r' w)"
    by (simp_all add: update_unfolded [OF assms])
  from flag log body immutable fields after show ?thesis by blast
qed

theorem update_sends_changes_then_reads_witness:
  "updateEnterpriseOptions d_domain_changed
     = (\<lparr>uo_EnterpriseID = Some ''ent-123'', uo_Name = None, uo_Domain = Some ''sub.acme.com'',
         uo_PrimaryContactIamID = None\<rparr>, True)
   \<and> update_calls (calls (snd (snd (resourceIbmEnterpriseUpdate rfc3339 d_domain_changed
        (Inr (scripted created (fetched acme) (status 200, None))) world0))))
     = [\<lparr>uo_EnterpriseID = Some ''ent-123'', uo_Name = None, uo_Domain = Some ''sub.acme.com'',
         uo_PrimaryContactIamID = None\<rparr>]
   \<and> resourceIbmEnterpriseUpdate rfc3339 d_domain_changed
        (Inr (scripted created (fetched acme) (status 200, None))) world0
     = resourceIbmEnterpriseRead rfc3339 d_domain_changed
        (Inr (scripted created (fetched acme) (status 200, None)))
        \<lparr>remote = (), calls = [UpdateEnterpriseCall
           \<lparr>uo_EnterpriseID = Some ''ent-123'', uo_Name = None, uo_Domain = Some ''sub.acme.com'',
            uo_PrimaryContactIamID = None\<rparr>]\<rparr>
   \<and> updateEnterpriseOptions d_unchanged
     = (\<lparr>uo_EnterpriseID = Some ''ent-123'', uo_Name = None, uo_Domain = None,
         uo_PrimaryContactIamID = None\<rparr>, False)
   \<and> update_calls (calls (snd (snd (resourceIbmEnterpriseUpdate rfc3339 d_unchanged
        (Inr (scripted created (fetched acme) (status 200, None))) world0)))) = []
   \<and> resourceIbmEnterpriseUpdate rfc3339 d_unchanged
        (Inr (scripted created (fetched acme) (status 200, None))) world0
     = resourceIbmEnterpriseRead rfc3339 d_unchanged
        (Inr (scripted created (fetched acme) (status 200, None))) world0
   \<and> resourceIbmEnterpriseUpdate rfc3339 d_domain_changed
        (Inr (scripted created (fetched acme) (status 500, Some ''update refused''))) world0
     = (Return (FromErr ''update refused''), d_domain_changed,
        \<lparr>remote = (), calls = [UpdateEnterpriseCall
           \<lparr>uo_EnterpriseID = Some ''ent-123'', uo_Name = None, uo_Domain = Some ''sub.acme.com'',
            uo_PrimaryContactIamID = None\<rparr>]\<rparr>)"
proof -
  let ?c = "scripted created (fetched acme) (status 200, None)"
  let ?o1 = "\<lparr>uo_EnterpriseID = Some ''ent-123'', uo_Name = None, uo_Domain = Some ''sub.acme.com'',
         uo_PrimaryContactIamID = None\<rparr>"
  let ?o0 = "\<lparr>uo_EnterpriseID = Some ''ent-123'', uo_Name = None, uo_Domain = None,
         uo_PrimaryContactIamID = None\<rparr>"
  have a: "updateEnterpriseOptions d_domain_changed = (?o1, True)"
    by (simp add: updateEnterpriseOptions_def uo_setters HasChange_def Let_def Get_def Id_rd_def
        zero_or_def d_domain_changed_def d_unchanged_def declared_acme_def)
  have b: "UpdateEnterpriseWithContext ?c ?o1 (remote world0) = ((status 200, None), ())"
    by (simp add: scripted_def)
  have c: "updateEnterpriseOptions d_unchanged = (?o0, False)"
    by (simp add: updateEnterpriseOptions_def uo_setters HasChange_def Let_def Get_def Id_rd_def
        zero_or_def d_unchanged_def declared_acme_def)
  have d: "UpdateEnterpriseWithContext ?c ?o0 (remote world0) = ((status 200, None), ())"
    by (simp add: scripted_def)
  note A = update_sends_changes_then_reads [OF a b, of rfc3339]
  note B = update_sends_changes_then_reads [OF c d, of rfc3339]
  from A have "update_calls (calls (snd (snd (resourceIbmEnterpriseUpdate rfc3339 d_domain_changed (Inr ?c) world0))))
             = update_calls (calls world0) @ (if True then [?o1] else [])"
    by blast
  then have 1: "update_calls (calls (snd (snd (resourceIbmEnterpriseUpdate rfc3339 d_domain_changed (Inr ?c) world0))))
             = [?o1]"
    by (simp add: world0_def)
  from A have "resourceIbmEnterpriseUpdate rfc3339 d_domain_changed (Inr ?c) world0
             = resourceIbmEnterpriseRead rfc3339 d_domain_changed (Inr ?c)
                 (issue (UpdateEnterpriseCall ?o1) () world0)"
    by blast
  then have 2: "resourceIbmEnterpriseUpdate rfc3339 d_domain_changed (Inr ?c) world0
             = resourceIbmEnterpriseRead rfc3339 d_domain_changed (Inr ?c)
                 \<lparr>remote = (), calls = [UpdateEnterpriseCall ?o1]\<rparr>"
    by (simp add: world0_def issue_def)
  from B have "update_calls (calls (snd (snd (resourceIbmEnterpriseUpdate rfc3339 d_unchanged (Inr ?c) world0))))
             = update_calls (calls world0) @ (if False then [?o0] else [])"
    by blast
  then have 3: "update_calls (calls (snd (snd (resourceIbmEnterpriseUpdate rfc3339 d_unchanged (Inr ?c) world0))))
             = []"
    by (simp add: world0_def)
  from B have 4: "resourceIbmEnterpriseUpdate rfc3339 d_unchanged (Inr ?c) world0
             = resourceIbmEnterpriseRead rfc3339 d_unchanged (Inr ?c) world0"
    by blast
  let ?f = "scripted created (fetched acme) (status 500, Some ''update refused'')"
  have e: "UpdateEnterpriseWithContext ?f ?o1 (remote world0) = ((status 500, Some ''update refused''), ())"
    by (simp add: scripted_def)
  from update_sends_changes_then_reads [OF a e, of rfc3339]
  have "resourceIbmEnterpriseUpdate rfc3339 d_domain_changed (Inr ?f) world0
          = (Return (FromErr ''update refused''), d_domain_changed,
             issue (UpdateEnterpriseCall ?o1) () world0)"
    by blast
  then have 5: "resourceIbmEnterpriseUpdate rfc3339 d_domain_changed (Inr ?f) world0
          = (Return (FromErr ''update refused''), d_domain_changed,
             \<lparr>remote = (), calls = [UpdateEnterpriseCall ?o1]\<rparr>)"
    by (simp add: world0_def issue_def)
  from a 1 2 c 3 4 5 show ?thesis by blast
qed

subsection \<open>Create on a remote that accepts\<close>

text \<open>
  Claim C4, as the specification states it, makes the instance fully
  populated whenever control returns from a Create whose creation call
  succeeded. When the fetch of the Read that follows fails, Create returns
  that error with the identifier assigned and no derived attribute assigned.
\<close>

theorem create_read_failure_partial:
  "resourceIbmEnterpriseCreate rfc3339 d_new
     (Inr (scripted created (failed 500 ''fetch refused'') (None, None))) world0
     = (Return (FromErr ''fetch refused''), d_new\<lparr>rd_Id := ''ent-123''\<rparr>,
        \<lparr>remote = (),
         calls = [CreateEnterpriseCall \<lparr>co_SourceAccountID = Some ''acc-1'', co_Name = Some ''Acme Corp'',
                    co_PrimaryContactIamID = Some ''IBMid-AB12CD34EF'', co_Domain = Some ''acme.com''\<rparr>,
                  GetEnterpriseCall \<lparr>go_EnterpriseID = Some ''ent-123''\<rparr>]\<rparr>)
   \<and> rd_writer (d_new\<lparr>rd_Id := ''ent-123''\<rparr>) ''crn'' = None
   \<and> Get (d_new\<lparr>rd_Id := ''ent-123''\<rparr>) ''crn'' = []"
  by (simp add: resourceIbmEnterpriseCreate_def resourceIbmEnterpriseRead_def createEnterpriseOptions_def
      co_setters go_SetEnterpriseID_def GetOk_def Get_def Id_rd_def SetId_def zero_or_def Let_def
      d_new_def declared_acme_def scripted_def created_def failed_def status_def world0_def issue_def)

text \<open>
  Claim C4, amended. Whenever the remote creation call of Create succeeds and
  returns an identifier, Create assigns that identifier to the instance,
  assigns no attribute itself, and then performs a Read on the instance, in
  the world \<open>w'\<close> that the creation call left; the outcome of Create is the
  outcome of that Read:
  \<^item> whenever the fetch of that Read succeeds with an entity that carries both
    timestamps, Create returns without a diagnostic, the identifier is the
    returned one and the instance is hydrated from the fetched entity;
  \<^item> whenever the fetch fails and its response has status 404, Create returns
    without a diagnostic and the identifier is cleared again, the instance
    being otherwise as it was before Create;
  \<^item> whenever the fetch fails in any other way (no response, or a status
    other than 404), Create returns the error of the fetch; the identifier
    stays assigned and no attribute has been assigned: the instance is as it
    was before Create but for the identifier.

  In the last two cases the log holds the creation call and the fetch.
\<close>

theorem create_assigns_id_then_reads:
  assumes "CreateEnterpriseWithContext client (createEnterpriseOptions d) (remote w)
           = ((Some resp, response, None), r')"
      and "cr_EnterpriseID resp = Some enterpriseID"
      and "w' = issue (CreateEnterpriseCall (createEnterpriseOptions d)) r' w"
      and "getEnterpriseOptions = go_SetEnterpriseID enterpriseID \<lparr>go_EnterpriseID = None\<rparr>"
  shows "resourceIbmEnterpriseCreate String d (Inr client) w
           = resourceIbmEnterpriseRead String (SetId enterpriseID d) (Inr client) w'
       \<and> Id_rd (SetId enterpriseID d) = enterpriseID
       \<and> rd_writer (SetId enterpriseID d) = rd_writer d
       \<and> (\<forall>e response2 r'' c u.
            GetEnterpriseWithContext client getEnterpriseOptions r' = ((Some e, response2, None), r'')
            \<and> ent_CreatedAt e = Some c \<and> ent_UpdatedAt e = Some u \<longrightarrow>
            fst (resourceIbmEnterpriseCreate String d (Inr client) w) = Return diag_nil
            \<and> Id_rd (fst (snd (resourceIbmEnterpriseCreate String d (Inr client) w))) = enterpriseID
            \<and> hydrated String e (fst (snd (resourceIbmEnterpriseCreate String d (Inr client) w))))
       \<and> (\<forall>enterprise resp2 e r''.
            GetEnterpriseWithContext client getEnterpriseOptions r'
              = ((enterprise, Some resp2, Some e), r'')
            \<and> StatusCode resp2 = 404 \<longrightarrow>
            resourceIbmEnterpriseCreate String d (Inr client) w
              = (Return diag_nil, SetId [] d, issue (GetEnterpriseCall getEnterpriseOptions) r'' w'))
       \<and> (\<forall>enterprise response2 e r''.
            GetEnterpriseWithContext client getEnterpriseOptions r'
              = ((enterprise, response2, Some e), r'')
            \<and> (case response2 of None \<Rightarrow> True | Some resp2 \<Rightarrow> StatusCode resp2 \<noteq> 404) \<longrightarrow>
            resourceIbmEnterpriseCreate String d (Inr client) w
              = (Return (FromErr e), SetId enterpriseID d,
                 issue (GetEnterpriseCall getEnterpriseOptions) r'' w'))"
proof -
  let ?d = "SetId enterpriseID d"
  have c: "resourceIbmEnterpriseCreate String d (Inr client) w
           = resourceIbmEnterpriseRead String ?d (Inr client) w'"
    unfolding assms(3) by (rule create_created [OF assms(1,2)])
  have i: "Id_rd ?d = enterpriseID" "rd_writer ?d = rd_writer d"
    by (simp_all add: Id_rd_def SetId_def)
  have o: "go_SetEnterpriseID (Id_rd ?d) \<lparr>go_EnterpriseID = None\<rparr> = getEnterpriseOptions"
    "remote w' = r'"
    by (simp_all add: i assms(3,4) issue_def)
  have ok: "fst (resourceIbmEnterpriseCreate String d (Inr client) w) = Return diag_nil
            \<and> Id_rd (fst (snd (resourceIbmEnterpriseCreate String d (Inr client) w))) = enterpriseID
            \<and> hydrated String e (fst (snd (resourceIbmEnterpriseCreate String d (Inr client) w)))"
    if f: "GetEnterpriseWithContext client getEnterpriseOptions r' = ((Some e, response2, None), r'')
            \<and> ent_CreatedAt e = Some c \<and> ent_UpdatedAt e = Some u"
    for e response2 r'' c u
  proof -
    from f have g: "GetEnterpriseWithContext client
             (go_SetEnterpriseID (Id_rd ?d) \<lparr>go_EnterpriseID = None\<rparr>) (remote w')
           = ((Some e, response2, None), r'')"
      by (simp add: o)
    from f have t: "ent_CreatedAt e = Some c" "ent_UpdatedAt e = Some u" by simp_all
    have "rd_Id (snd (set_each String (assignments e) ?d)) = enterpriseID"
      using set_each_hydrated(3) [OF t, of String ?d] by (simp add: SetId_def)
    then show ?thesis
      by (simp add: c read_fetched [OF g] set_each_hydrated(1,2) [OF t] Id_rd_def)
  qed
  have gone: "resourceIbmEnterpriseCreate String d (Inr client) w
              = (Return diag_nil, SetId [] d, issue (GetEnterpriseCall getEnterpriseOptions) r'' w')"
    if f: "GetEnterpriseWithContext client getEnterpriseOptions r'
              = ((enterprise, Some resp2, Some e), r'')
            \<and> StatusCode resp2 = 404"
    for enterprise resp2 e r''
  proof -
    from f have g: "GetEnterpriseWithContext client
             (go_SetEnterpriseID (Id_rd ?d) \<lparr>go_EnterpriseID = None\<rparr>) (remote w')
           = ((enterprise, Some resp2, Some e), r'')"
      by (simp add: o)
    from f show ?thesis
      by (simp add: c read_failed [OF g] o) (simp add: SetId_def)
  qed
  have bad: "resourceIbmEnterpriseCreate String d (Inr client) w
              = (Return (FromErr e), SetId enterpriseID d,
                 issue (GetEnterpriseCall getEnterpriseOptions) r'' w')"
    if f: "GetEnterpriseWithContext client getEnterpriseOptions r'
              = ((enterprise, response2, Some e), r'')
            \<and> (case response2 of None \<Rightarrow> True | Some resp2 \<Rightarrow> StatusCode resp2 \<noteq> 404)"
    for enterprise response2 e r''
  proof -
    from f have g: "GetEnterpriseWithContext client
             (go_SetEnterpriseID (Id_rd ?d) \<lparr>go_EnterpriseID = None\<rparr>) (remote w')
           = ((enterprise, response2, Some e), r'')"
      by (simp add: o)
    from f show ?thesis
      by (auto simp add: c read_failed [OF g] o split: option.splits)
  qed
  from c i ok gone bad show ?thesis by blast
qed

theorem create_assigns_id_then_reads_witness:
  "fst (resourceIbmEnterpriseCreate rfc3339 d_new
        (Inr (scripted created (fetched acme) (None, None))) world0) = Return diag_nil
   \<and> Id_rd (fst (snd (resourceIbmEnterpriseCreate rfc3339 d_new
        (Inr (scripted created (fetched acme) (None, None))) world0))) = ''ent-123''
   \<and> hydrated rfc3339 acme (fst (snd (resourceIbmEnterpriseCreate rfc3339 d_new
        (Inr (scripted created (fetched acme) (None, None))) world0)))
   \<and> resourceIbmEnterpriseCreate rfc3339 d_new
        (Inr (scripted created (failed 404 ''not found'') (None, None))) world0
     = (Return diag_nil, d_new,
        \<lparr>remote = (),
         calls = [CreateEnterpriseCall (createEnterpriseOptions d_new),
                  GetEnterpriseCall \<lparr>go_EnterpriseID = Some ''ent-123''\<rparr>]\<rparr>)
   \<and> resourceIbmEnterpriseCreate rfc3339 d_new
        (Inr (scripted created (failed 503 ''unavailable'') (None, None))) world0
     = (Return (FromErr ''unavailable''), d_new\<lparr>rd_Id := ''ent-123''\<rparr>,
        \<lparr>remote = (),
         calls = [CreateEnterpriseCall (createEnterpriseOptions d_new),
                  GetEnterpriseCall \<lparr>go_EnterpriseID = Some ''ent-123''\<rparr>]\<rparr>)"
proof -
  let ?resp = "\<lparr>cr_EnterpriseID = Some ''ent-123'', cr_EnterpriseAccountID = Some ''acc-9''\<rparr>"
  let ?w = "issue (CreateEnterpriseCall (createEnterpriseOptions d_new)) () world0"
  let ?g = "go_SetEnterpriseID ''ent-123'' \<lparr>go_EnterpriseID = None\<rparr>"
  have a: "CreateEnterpriseWithContext (scripted created g (None, None))
             (createEnterpriseOptions d_new) (remote world0)
             = ((Some ?resp, status 202, None), ())" for g
    by (simp add: scripted_def created_def)
  have b: "cr_EnterpriseID ?resp = Some ''ent-123''" by simp
  have f: "GetEnterpriseWithContext (scripted created g (None, None)) ?g () = (g, ())" for g
    by (simp add: scripted_def)
  have t: "ent_CreatedAt acme = Some (DateTime 1)" "ent_UpdatedAt acme = Some (DateTime 2)"
    by (simp_all add: acme_def)
  from create_assigns_id_then_reads [OF a [of "fetched acme"] b refl refl, where String = rfc3339]
     f [of "fetched acme"] t
  have 1: "fst (resourceIbmEnterpriseCreate rfc3339 d_new
              (Inr (scripted created (fetched acme) (None, None))) world0) = Return diag_nil
      \<and> Id_rd (fst (snd (resourceIbmEnterpriseCreate rfc3339 d_new
              (Inr (scripted created (fetched acme) (None, None))) world0))) = ''ent-123''
      \<and> hydrated rfc3339 acme (fst (snd (resourceIbmEnterpriseCreate rfc3339 d_new
              (Inr (scripted created (fetched acme) (None, None))) world0)))"
    unfolding fetched_def by blast
  have s4: "StatusCode \<lparr>StatusCode = 404\<rparr> = 404" by simp
  from create_assigns_id_then_reads [OF a [of "failed 404 ''not found''"] b refl refl, where String = rfc3339]
     f [of "failed 404 ''not found''"] s4
  have "resourceIbmEnterpriseCreate rfc3339 d_new
          (Inr (scripted created (failed 404 ''not found'') (None, None))) world0
        = (Return diag_nil, SetId [] d_new, issue (GetEnterpriseCall ?g) () ?w)"
    unfolding failed_def status_def by blast
  then have 2: "resourceIbmEnterpriseCreate rfc3339 d_new
          (Inr (scripted created (failed 404 ''not found'') (None, None))) world0
        = (Return diag_nil, d_new,
           \<lparr>remote = (),
            calls = [CreateEnterpriseCall (createEnterpriseOptions d_new),
                     GetEnterpriseCall \<lparr>go_EnterpriseID = Some ''ent-123''\<rparr>]\<rparr>)"
    by (simp add: SetId_def d_new_def issue_def world0_def go_SetEnterpriseID_def)
  have s5: "(case Some \<lparr>StatusCode = 503\<rparr> of None \<Rightarrow> True | Some resp2 \<Rightarrow> StatusCode resp2 \<noteq> 404)"
    by simp
  from create_assigns_id_then_reads [OF a [of "failed 503 ''unavailable''"] b refl refl, where String = rfc3339]
     f [of "failed 503 ''unavailable''"] s5
  have "resourceIbmEnterpriseCreate rfc3339 d_new
          (Inr (scripted created (failed 503 ''unavailable'') (None, None))) world0
        = (Return (FromErr ''unavailable''), SetId ''ent-123'' d_new,
           issue (GetEnterpriseCall ?g) () ?w)"
    unfolding failed_def status_def by blast
  then have 3: "resourceIbmEnterpriseCreate rfc3339 d_new
          (Inr (scripted created (failed 503 ''unavailable'') (None, None))) world0
        = (Return (FromErr ''unavailable''), d_new\<lparr>rd_Id := ''ent-123''\<rparr>,
           \<lparr>remote = (),
            calls = [CreateEnterpriseCall (createEnterpriseOptions d_new),
                     GetEnterpriseCall \<lparr>go_EnterpriseID = Some ''ent-123''\<rparr>]\<rparr>)"
    by (simp add: SetId_def issue_def world0_def go_SetEnterpriseID_def)
  from 1 2 3 show ?thesis by blast
qed

subsection \<open>The creation request\<close>

text \<open>
  Claim C5, as the specification states it, keeps an omitted domain and a
  domain given as the empty string apart. The source asks \<^verbatim>\<open>GetOk\<close>, which
  reports the empty string as not set: both configurations give the same
  request, without domain.
\<close>

theorem create_empty_domain_as_omitted:
  "rd_declared d_domain_empty ''domain'' = Some []
   \<and> rd_declared d_domain_omitted ''domain'' = None
   \<and> co_Domain (createEnterpriseOptions d_domain_empty) = None
   \<and> createEnterpriseOptions d_domain_empty = createEnterpriseOptions d_domain_omitted"
  by (simp add: createEnterpriseOptions_def co_setters GetOk_def Get_def zero_or_def Let_def
      d_domain_empty_def d_domain_omitted_def d_new_def declared_acme_def)

text \<open>
  Claim C5, amended. For every instance, the request that Create builds
  carries source_account_id, name and primary_contact_iam_id with their
  declared values, and carries the domain exactly when its value is not the
  empty string: with nothing assigned locally, a declared non-empty domain is
  sent, and an omitted domain and a domain declared as the empty string are
  both left out. The creation call is the first remote call of Create and
  carries that request.
\<close>

theorem create_request_fields:
  "co_SourceAccountID (createEnterpriseOptions d) = Some (Get d ''source_account_id'')
   \<and> co_Name (createEnterpriseOptions d) = Some (Get d ''name'')
   \<and> co_PrimaryContactIamID (createEnterpriseOptions d) = Some (Get d ''primary_contact_iam_id'')
   \<and> co_Domain (createEnterpriseOptions d)
       = (if Get d ''domain'' = [] then None else Some (Get d ''domain''))
   \<and> (rd_writer d ''domain'' = None \<longrightarrow>
        co_Domain (createEnterpriseOptions d)
          = (case rd_declared d ''domain'' of
               None \<Rightarrow> None
             | Some v \<Rightarrow> if v = [] then None else Some v))
   \<and> take (Suc (length (calls w)))
        (calls (snd (snd (resourceIbmEnterpriseCreate String d (Inr client) w))))
       = calls w @ [CreateEnterpriseCall (createEnterpriseOptions d)]"
proof -
  have "Get d ''domain'' \<noteq> [] \<Longrightarrow> rd_writer d ''domain'' \<noteq> None \<or> rd_declared d ''domain'' \<noteq> None"
    by (auto simp add: Get_def zero_or_def split: option.splits)
  then have dom: "co_Domain (createEnterpriseOptions d)
       = (if Get d ''domain'' = [] then None else Some (Get d ''domain''))"
    by (auto simp add: createEnterpriseOptions_def co_setters GetOk_def Let_def)
  have decl: "rd_writer d ''domain'' = None \<longrightarrow>
        co_Domain (createEnterpriseOptions d)
          = (case rd_declared d ''domain'' of
               None \<Rightarrow> None
             | Some v \<Rightarrow> if v = [] then None else Some v)"
    unfolding dom by (simp add: Get_def zero_or_def split: option.splits)
  have req: "co_SourceAccountID (createEnterpriseOptions d) = Some (Get d ''source_account_id'')"
    "co_Name (createEnterpriseOptions d) = Some (Get d ''name'')"
    "co_PrimaryContactIamID (createEnterpriseOptions d) = Some (Get d ''primary_contact_iam_id'')"
    by (simp_all add: createEnterpriseOptions_def co_setters Let_def)
  from req dom decl create_calls [of w String d client] show ?thesis by blast
qed

theorem create_request_fields_witness:
  "rd_writer d_domain_empty ''domain'' = None
   \<and> rd_declared d_domain_empty ''domain'' = Some []
   \<and> co_Domain (createEnterpriseOptions d_domain_empty) = None
   \<and> rd_writer d_new ''domain'' = None
   \<and> rd_declared d_new ''domain'' = Some ''acme.com''
   \<and> co_Domain (createEnterpriseOptions d_new) = Some ''acme.com''"
proof -
  have e: "rd_writer d_domain_empty ''domain'' = None" "rd_declared d_domain_empty ''domain'' = Some []"
    by (simp_all add: d_domain_empty_def d_new_def)
  have n: "rd_writer d_new ''domain'' = None" "rd_declared d_new ''domain'' = Some ''acme.com''"
    by (simp_all add: d_new_def declared_acme_def)
  from create_request_fields [of d_domain_empty world0 rfc3339 "scripted created (fetched acme) (None, None)"] e(1)
  have "co_Domain (createEnterpriseOptions d_domain_empty)
          = (case rd_declared d_domain_empty ''domain'' of
               None \<Rightarrow> None
             | Some v \<Rightarrow> if v = [] then None else Some v)"
    by blast
  with e(2) have 1: "co_Domain (createEnterpriseOptions d_domain_empty) = None" by simp
  from create_request_fields [of d_new world0 rfc3339 "scripted created (fetched acme) (None, None)"] n(1)
  have "co_Domain (createEnterpriseOptions d_new)
          = (case rd_declared d_new ''domain'' of
               None \<Rightarrow> None
             | Some v \<Rightarrow> if v = [] then None else Some v)"
    by blast
  with n(2) have 2: "co_Domain (createEnterpriseOptions d_new) = Some ''acme.com''" by simp
  from e n 1 2 show ?thesis by blast
qed

subsection \<open>The validator\<close>

text \<open>
  Claim C8 describes the accepted values as \<^verbatim>\<open>IBMid-\<close> followed by ten
  uppercase letters or digits. The class of the pattern also has the comma as
  a member: the validator returns no error for a value with a comma among the
  ten characters, a value outside the described set.
\<close>

theorem validator_accepts_comma:
  "ValidateRegexps iam_id_regex ''IBMid-AB12,D34EF'' ''primary_contact_iam_id'' = ([], [])
   \<and> iam_id_claimed ''IBMid-AB12,D34EF'' = False"
  by (simp add: ValidateRegexps_def iam_id_regex_def match_class_def eval_nat_numeral
      iam_id_claimed_def upper_alnum_def)

end
